theory Spec2Isabelle
  imports Complex_Main "HOL-Library.Sublist"
begin

section \<open>Errors and text helpers\<close>

text \<open>
  Python exceptions are values.  Every \<open>raise\<close> of the source and every failure of an
  external collaborator (the sentence-transformer model, the ChromaDB collection, pydantic,
  \<open>datetime.fromisoformat\<close>) is an \<open>Inl\<close> of this type; \<open>str_exn\<close> is Python's \<open>str(e)\<close>.
\<close>

datatype exn =
    ValueError string
  | ModelError string
  | StoreError string
  | ValidationError string

fun str_exn :: "exn \<Rightarrow> string" where
  "str_exn (ValueError m) = m"
| "str_exn (ModelError m) = m"
| "str_exn (StoreError m) = m"
| "str_exn (ValidationError m) = m"

text \<open>
  \<open>str.strip()\<close>: whitespace is removed at both ends.  The characters are the ones of
  \<open>str.isspace\<close> that fit in one byte.
\<close>

definition isspace :: "char \<Rightarrow> bool" where
  "isspace c \<longleftrightarrow> c \<in> set [CHR 0x09, CHR 0x0A, CHR 0x0B, CHR 0x0C, CHR 0x0D,
                          CHR 0x1C, CHR 0x1D, CHR 0x1E, CHR 0x1F, CHR 0x20, CHR 0x85, CHR 0xA0]"

definition strip :: "string \<Rightarrow> string" where
  "strip s = rev (dropWhile isspace (rev (dropWhile isspace s)))"

section \<open>embedding\_service.py\<close>

text \<open>
  Python floats are doubles.  They are read as reals, with the one effect of double
  arithmetic that decides which branch \<open>compute_similarity\<close> takes: the underflow of the
  squares under the norm.  A square of magnitude at most \<open>2^-1075\<close>, half the smallest
  positive double, is \<open>0.0\<close> (round to nearest, ties to even), so the squares of tiny
  components vanish and a vector with non-zero components can have the norm \<open>0.0\<close>.
  The dot product is only divided, never tested, and is read exactly; rounding of larger
  values, overflow and NaN are outside the model.
  \<open>np.dot\<close> of two one-dimensional arrays raises when their lengths differ;
  \<open>np.linalg.norm\<close> is the Euclidean norm, the square root of the sum of the squares as
  doubles.
\<close>

definition underflow :: "real \<Rightarrow> real" where
  "underflow p = (if \<bar>p\<bar> \<le> 1 / 2 ^ 1075 then 0 else p)"

definition np_dot :: "real list \<Rightarrow> real list \<Rightarrow> exn + real" where
  "np_dot a b =
     (if length a = length b then Inr (\<Sum>(x, y)\<leftarrow>zip a b. x * y)
      else Inl (ValueError ''shapes not aligned''))"

definition np_linalg_norm :: "real list \<Rightarrow> real" where
  "np_linalg_norm v = sqrt (\<Sum>x\<leftarrow>v. underflow (x * x))"

text \<open>
  \<open>EmbeddingService.compute_similarity\<close>.  The \<open>try\<close> block computes the dot product
  first, so an exception of \<open>np.dot\<close> reaches the handler, which returns \<open>0.0\<close>.
\<close>

definition compute_similarity :: "real list \<Rightarrow> real list \<Rightarrow> real" where
  "compute_similarity embedding1 embedding2 =
     (case np_dot embedding1 embedding2 of
        Inl e \<Rightarrow> 0
      | Inr dot_product \<Rightarrow>
          (let norm1 = np_linalg_norm embedding1;
               norm2 = np_linalg_norm embedding2
           in if norm1 = 0 \<or> norm2 = 0 then 0
              else (let similarity = dot_product / (norm1 * norm2)
                    in max 0 (min 1 similarity))))"

section \<open>models.py\<close>

text \<open>
  The pydantic models are records; their \<open>Field\<close> constraints are predicates.  A model
  with constraints is built through its \<open>_init\<close> function, which raises pydantic's
  validation error when a constraint fails.  The type \<open>'t\<close> is \<open>datetime\<close>.
\<close>

record PersonProfileCreate =
  pc_name :: string
  pc_description :: string
  pc_age :: "int option"
  pc_location :: "string option"

record 't PersonProfile =
  pp_id :: "string option"
  pp_name :: string
  pp_description :: string
  pp_age :: "int option"
  pp_location :: "string option"
  pp_created_at :: "'t option"

record 't PersonProfileResponse =
  pr_id :: string
  pr_name :: string
  pr_description :: string
  pr_age :: "int option"
  pr_location :: "string option"
  pr_created_at :: 't
  pr_similarity_score :: real

record SimilaritySearchRequest =
  sr_query_description :: string
  sr_limit :: int
  sr_exclude_id :: "string option"

record 't SimilaritySearchResponse =
  sp_query :: string
  sp_results :: "'t PersonProfileResponse list"
  sp_total_results :: int

definition valid_name :: "string \<Rightarrow> bool" where
  "valid_name n \<longleftrightarrow> 1 \<le> length n \<and> length n \<le> 100"

definition valid_description :: "string \<Rightarrow> bool" where
  "valid_description d \<longleftrightarrow> 10 \<le> length d \<and> length d \<le> 2000"

definition valid_age :: "int option \<Rightarrow> bool" where
  "valid_age a \<longleftrightarrow> (case a of None \<Rightarrow> True | Some n \<Rightarrow> 18 \<le> n \<and> n \<le> 100)"

definition valid_location :: "string option \<Rightarrow> bool" where
  "valid_location l \<longleftrightarrow> (case l of None \<Rightarrow> True | Some s \<Rightarrow> length s \<le> 100)"

definition valid_PersonProfileCreate :: "PersonProfileCreate \<Rightarrow> bool" where
  "valid_PersonProfileCreate p \<longleftrightarrow>
     valid_name (pc_name p) \<and> valid_description (pc_description p)
     \<and> valid_age (pc_age p) \<and> valid_location (pc_location p)"

definition valid_SimilaritySearchRequest :: "SimilaritySearchRequest \<Rightarrow> bool" where
  "valid_SimilaritySearchRequest r \<longleftrightarrow>
     valid_description (sr_query_description r) \<and> 1 \<le> sr_limit r \<and> sr_limit r \<le> 50"

definition PersonProfile_init ::
  "string option \<Rightarrow> string \<Rightarrow> string \<Rightarrow> int option \<Rightarrow> string option \<Rightarrow> 't option
     \<Rightarrow> exn + 't PersonProfile" where
  "PersonProfile_init i n d a l c =
     (if valid_name n \<and> valid_description d \<and> valid_age a \<and> valid_location l
      then Inr \<lparr>pp_id = i, pp_name = n, pp_description = d, pp_age = a, pp_location = l,
                pp_created_at = c\<rparr>
      else Inl (ValidationError ''PersonProfile''))"

section \<open>The external collaborators\<close>

text \<open>
  What the collection stores for one profile: the id, the embedding, the document (the
  description) and the metadata dictionary with the four keys \<open>add_person_profile\<close> writes.
\<close>

record metadata =
  md_name :: string
  md_age :: "int option"
  md_location :: "string option"
  md_created_at :: string

record entry =
  e_id :: string
  e_embedding :: "real list"
  e_document :: string
  e_metadata :: metadata

text \<open>
  The libraries the repository calls are parameters of the model:
  \<^item> \<open>encode\<close> is \<open>SentenceTransformer.encode(text).tolist()\<close>, which may raise;
  \<^item> \<open>fromisoformat\<close> is \<open>datetime.fromisoformat\<close>, which raises on a malformed string;
  \<^item> \<open>metric\<close> is the distance the collection reports between a query vector and a
    stored vector;
  \<^item> \<open>where_ne\<close> is the collection's reading of the filter \<open>{"id": {"$ne": x}}\<close> on the
    metadata of one entry (the repository never stores a metadata key \<open>id\<close>, and what the
    filter then keeps is the store's business).
\<close>

record 't externals =
  encode :: "string \<Rightarrow> exn + real list"
  fromisoformat :: "string \<Rightarrow> exn + 't"
  metric :: "real list \<Rightarrow> real list \<Rightarrow> real"
  where_ne :: "string \<Rightarrow> metadata \<Rightarrow> bool"

text \<open>
  \<open>EmbeddingService.generate_embedding\<close>: the handler prints and re-raises, so the
  exception of the body is the exception of the call.
\<close>

definition generate_embedding :: "'t externals \<Rightarrow> string \<Rightarrow> exn + real list" where
  "generate_embedding ev text =
     (let text' = strip text
      in if text' = [] then Inl (ValueError ''Text cannot be empty'')
         else encode ev text')"

section \<open>The ChromaDB collection\<close>

text \<open>
  A collection is the list of its entries in insertion order.  The field \<open>fault\<close> models
  a store that is failing: when it is \<open>Some e\<close>, every call on the collection raises
  \<open>e\<close>.

  The operations are the library's contract as the repository uses it: \<open>add\<close> validates
  the metadata before it reaches the store and raises when a value is \<open>None\<close> (a value
  must be a string, a number or a boolean), leaves the collection as it is when the id is
  already there, and appends otherwise,
  \<open>get(ids=[i])\<close> returns the entries with that id, \<open>get(limit=n)\<close> the first \<open>n\<close>
  entries, \<open>query\<close> the \<open>n_results\<close> entries nearest to the query vector among those
  the filter keeps, nearest first (the index is read as exact), \<open>delete\<close> removes the
  entries with the id and does not raise when there is none, \<open>count\<close> counts.
\<close>

record collection =
  rows :: "entry list"
  fault :: "exn option"

datatype where_clause = IdNe string

text \<open>One line of a query result: distance, document, metadata, id.\<close>

type_synonym hit = "real \<times> string \<times> metadata \<times> string"

definition validate_metadata :: "metadata \<Rightarrow> bool" where
  "validate_metadata m \<longleftrightarrow> md_age m \<noteq> None \<and> md_location m \<noteq> None"

definition collection_add :: "collection \<Rightarrow> entry \<Rightarrow> exn + collection" where
  "collection_add c e =
     (if \<not> validate_metadata (e_metadata e)
      then Inl (ValueError ''Expected metadata value to be a str, int, float or bool, got None'')
      else case fault c of
             Some x \<Rightarrow> Inl x
           | None \<Rightarrow>
               if e_id e \<in> set (map e_id (rows c)) then Inr c
               else Inr (c\<lparr>rows := rows c @ [e]\<rparr>))"

definition collection_get :: "collection \<Rightarrow> string \<Rightarrow> exn + entry list" where
  "collection_get c i =
     (case fault c of Some x \<Rightarrow> Inl x | None \<Rightarrow> Inr (filter (\<lambda>e. e_id e = i) (rows c)))"

definition collection_get_limit :: "collection \<Rightarrow> int \<Rightarrow> exn + entry list" where
  "collection_get_limit c n =
     (case fault c of Some x \<Rightarrow> Inl x
      | None \<Rightarrow> if n < 0 then Inl (ValueError ''Limit cannot be negative'')
                else Inr (take (nat n) (rows c)))"

definition where_matches :: "'t externals \<Rightarrow> where_clause option \<Rightarrow> entry \<Rightarrow> bool" where
  "where_matches ev w e =
     (case w of None \<Rightarrow> True
      | Some (IdNe x) \<Rightarrow> where_ne ev x (e_metadata e))"

definition collection_query ::
  "'t externals \<Rightarrow> collection \<Rightarrow> real list \<Rightarrow> int \<Rightarrow> where_clause option \<Rightarrow> exn + hit list" where
  "collection_query ev c q n_results w =
     (case fault c of Some x \<Rightarrow> Inl x
      | None \<Rightarrow>
          if n_results \<le> 0
          then Inl (ValueError ''Number of requested results cannot be negative, or zero'')
          else Inr (map (\<lambda>e. (metric ev q (e_embedding e), e_document e, e_metadata e, e_id e))
                     (take (nat n_results)
                        (sort_key (\<lambda>e. metric ev q (e_embedding e))
                           (filter (where_matches ev w) (rows c))))))"

definition collection_delete :: "collection \<Rightarrow> string \<Rightarrow> exn + collection" where
  "collection_delete c i =
     (case fault c of Some x \<Rightarrow> Inl x
      | None \<Rightarrow> Inr (c\<lparr>rows := filter (\<lambda>e. e_id e \<noteq> i) (rows c)\<rparr>))"

definition collection_count :: "collection \<Rightarrow> exn + int" where
  "collection_count c =
     (case fault c of Some x \<Rightarrow> Inl x | None \<Rightarrow> Inr (int (length (rows c))))"

section \<open>vector\_db.py\<close>

text \<open>
  The \<open>VectorDatabase\<close> object: its two configuration strings and its collection.  An
  operation that changes the collection returns the object after the call next to its
  result, also when it raises.
\<close>

record vector_database =
  persist_directory :: string
  collection_name :: string
  collection :: collection

text \<open>Python's truth value of an optional string: \<open>None\<close> and \<open>""\<close> are false.\<close>

definition truthy :: "string option \<Rightarrow> bool" where
  "truthy s = (case s of None \<Rightarrow> False | Some x \<Rightarrow> x \<noteq> [])"

text \<open>
  \<open>add_person_profile\<close>.  The arguments \<open>uuid\<close> and \<open>now\<close> are the values of
  \<open>str(uuid.uuid4())\<close> and \<open>datetime.now().isoformat()\<close> in this call.  The handler
  prints and re-raises.
\<close>

definition add_person_profile ::
  "'t externals \<Rightarrow> vector_database \<Rightarrow> string \<Rightarrow> string \<Rightarrow> PersonProfileCreate
     \<Rightarrow> (exn + string) \<times> vector_database" where
  "add_person_profile ev db uuid now profile =
     (let profile_id = uuid
      in case generate_embedding ev (pc_description profile) of
           Inl e \<Rightarrow> (Inl e, db)
         | Inr embedding \<Rightarrow>
             (let metadata = \<lparr>md_name = pc_name profile, md_age = pc_age profile,
                              md_location = pc_location profile, md_created_at = now\<rparr>
              in case collection_add (collection db)
                        \<lparr>e_id = profile_id, e_embedding = embedding,
                         e_document = pc_description profile, e_metadata = metadata\<rparr> of
                   Inl e \<Rightarrow> (Inl e, db)
                 | Inr c \<Rightarrow> (Inr profile_id, db\<lparr>collection := c\<rparr>)))"

text \<open>
  \<open>get_person_profile\<close>: the body of the \<open>try\<close> block, then the function with its
  handler, which returns \<open>None\<close> for every exception.
\<close>

definition get_person_profile_body ::
  "'t externals \<Rightarrow> vector_database \<Rightarrow> string \<Rightarrow> exn + 't PersonProfile option" where
  "get_person_profile_body ev db profile_id =
     (case collection_get (collection db) profile_id of
        Inl e \<Rightarrow> Inl e
      | Inr result \<Rightarrow>
          (case result of
             [] \<Rightarrow> Inr None
           | r # _ \<Rightarrow>
               (let metadata = e_metadata r; document = e_document r
                in case fromisoformat ev (md_created_at metadata) of
                     Inl e \<Rightarrow> Inl e
                   | Inr created \<Rightarrow>
                       (case PersonProfile_init (Some profile_id) (md_name metadata) document
                               (md_age metadata) (md_location metadata) (Some created) of
                          Inl e \<Rightarrow> Inl e
                        | Inr p \<Rightarrow> Inr (Some p)))))"

definition get_person_profile ::
  "'t externals \<Rightarrow> vector_database \<Rightarrow> string \<Rightarrow> exn + 't PersonProfile option" where
  "get_person_profile ev db profile_id =
     (case get_person_profile_body ev db profile_id of
        Inl e \<Rightarrow> Inr None
      | Inr r \<Rightarrow> Inr r)"

text \<open>
  \<open>search_similar_profiles\<close>.  \<open>collect_similar\<close> is the loop over the lines of the
  query result, with the list \<open>similar_profiles\<close> as accumulator: an excluded id is
  skipped, a response is appended, and the loop stops once the list has \<open>limit\<close> elements.
  \<open>where_clause_of\<close> and \<open>n_results_of\<close> are the two arguments the method computes
  for the query: the filter \<open>{"id": {"$ne": exclude_id}}\<close> and \<open>limit + 1\<close> when an id is
  excluded, no filter and \<open>limit\<close> otherwise.
\<close>

fun collect_similar ::
  "'t externals \<Rightarrow> string option \<Rightarrow> int \<Rightarrow> hit list \<Rightarrow> 't PersonProfileResponse list
     \<Rightarrow> exn + 't PersonProfileResponse list" where
  "collect_similar ev exclude_id limit [] similar_profiles = Inr similar_profiles"
| "collect_similar ev exclude_id limit ((distance, document, metadata, profile_id) # rest)
       similar_profiles =
     (if truthy exclude_id \<and> Some profile_id = exclude_id
      then collect_similar ev exclude_id limit rest similar_profiles
      else (let similarity_score = 1 - distance
            in case fromisoformat ev (md_created_at metadata) of
                 Inl e \<Rightarrow> Inl e
               | Inr created \<Rightarrow>
                   (let profile_response =
                          \<lparr>pr_id = profile_id, pr_name = md_name metadata,
                           pr_description = document, pr_age = md_age metadata,
                           pr_location = md_location metadata, pr_created_at = created,
                           pr_similarity_score = similarity_score\<rparr>;
                        similar_profiles' = similar_profiles @ [profile_response]
                    in if limit \<le> int (length similar_profiles') then Inr similar_profiles'
                       else collect_similar ev exclude_id limit rest similar_profiles')))"

definition where_clause_of :: "string option \<Rightarrow> where_clause option" where
  "where_clause_of exclude_id =
     (case exclude_id of
        None \<Rightarrow> None
      | Some x \<Rightarrow> if truthy exclude_id then Some (IdNe x) else None)"

definition n_results_of :: "int \<Rightarrow> string option \<Rightarrow> int" where
  "n_results_of limit exclude_id = limit + (if truthy exclude_id then 1 else 0)"

definition search_similar_profiles ::
  "'t externals \<Rightarrow> vector_database \<Rightarrow> string \<Rightarrow> int \<Rightarrow> string option
     \<Rightarrow> exn + 't PersonProfileResponse list" where
  "search_similar_profiles ev db query_description limit exclude_id =
     (case generate_embedding ev query_description of
        Inl e \<Rightarrow> Inl e
      | Inr query_embedding \<Rightarrow>
          (let where_clause = where_clause_of exclude_id
           in case collection_query ev (collection db) query_embedding
                     (n_results_of limit exclude_id) where_clause of
                Inl e \<Rightarrow> Inl e
              | Inr results \<Rightarrow> collect_similar ev exclude_id limit results []))"

text \<open>
  What a search result is compared with: \<open>hit_fields\<close> are the fields the loop gives the
  response of a line of the query result, the score \<open>1 - distance\<close> among them,
  \<open>response_fields\<close> are the same fields of a response, and \<open>kept\<close> holds for the lines
  the loop does not skip.
\<close>

definition kept :: "string option \<Rightarrow> hit \<Rightarrow> bool" where
  "kept exclude_id h =
     (case h of (distance, document, metadata, profile_id) \<Rightarrow>
        \<not> (truthy exclude_id \<and> Some profile_id = exclude_id))"

definition hit_fields ::
  "hit \<Rightarrow> string \<times> string \<times> string \<times> int option \<times> string option \<times> real" where
  "hit_fields h =
     (case h of (distance, document, metadata, profile_id) \<Rightarrow>
        (profile_id, md_name metadata, document, md_age metadata, md_location metadata,
         1 - distance))"

definition response_fields ::
  "'t PersonProfileResponse \<Rightarrow> string \<times> string \<times> string \<times> int option \<times> string option \<times> real" where
  "response_fields r =
     (pr_id r, pr_name r, pr_description r, pr_age r, pr_location r, pr_similarity_score r)"

text \<open>\<open>get_all_profiles\<close>: one profile per entry the store returns; re-raises.\<close>

fun build_profiles :: "'t externals \<Rightarrow> entry list \<Rightarrow> exn + 't PersonProfile list" where
  "build_profiles ev [] = Inr []"
| "build_profiles ev (r # rest) =
     (case fromisoformat ev (md_created_at (e_metadata r)) of
        Inl e \<Rightarrow> Inl e
      | Inr created \<Rightarrow>
          (case PersonProfile_init (Some (e_id r)) (md_name (e_metadata r)) (e_document r)
                  (md_age (e_metadata r)) (md_location (e_metadata r)) (Some created) of
             Inl e \<Rightarrow> Inl e
           | Inr p \<Rightarrow>
               (case build_profiles ev rest of
                  Inl e \<Rightarrow> Inl e
                | Inr ps \<Rightarrow> Inr (p # ps))))"

definition get_all_profiles ::
  "'t externals \<Rightarrow> vector_database \<Rightarrow> int \<Rightarrow> exn + 't PersonProfile list" where
  "get_all_profiles ev db limit =
     (case collection_get_limit (collection db) limit of
        Inl e \<Rightarrow> Inl e
      | Inr results \<Rightarrow> build_profiles ev results)"

text \<open>
  \<open>delete_person_profile\<close>: \<open>True\<close> when the call on the collection returns, \<open>False\<close>
  when it raises.  The function itself never raises.
\<close>

definition delete_person_profile ::
  "vector_database \<Rightarrow> string \<Rightarrow> (exn + bool) \<times> vector_database" where
  "delete_person_profile db profile_id =
     (case collection_delete (collection db) profile_id of
        Inr c \<Rightarrow> (Inr True, db\<lparr>collection := c\<rparr>)
      | Inl e \<Rightarrow> (Inr False, db))"

text \<open>
  \<open>get_collection_stats\<close>: the dictionary with the count, or the dictionary
  \<open>{"error": str(e)}\<close> when the count raises.  The function itself never raises.
\<close>

datatype stats = Stats int string string | StatsError string

definition get_collection_stats :: "vector_database \<Rightarrow> exn + stats" where
  "get_collection_stats db =
     (case collection_count (collection db) of
        Inr count \<Rightarrow> Inr (Stats count (collection_name db) (persist_directory db))
      | Inl e \<Rightarrow> Inr (StatsError (str_exn e)))"

section \<open>main.py\<close>

text \<open>
  A handler returns its JSON body or raises \<open>HTTPException status_code detail\<close>.  A
  request whose body fails the pydantic model of the handler's parameter never reaches the
  handler: the framework answers it itself, which is \<open>RequestValidationError\<close> (FastAPI's
  status for it is 422).  A handler whose name is also a method of \<open>VectorDatabase\<close> has
  the prefix \<open>main_\<close>; \<open>post_profiles\<close> and \<open>post_profiles_search\<close> are the two routes
  with a request body: the validation of the body, then the handler.
\<close>

datatype http_error = HTTPException nat string | RequestValidationError

record added =
  ad_message :: string
  ad_profile_id :: string
  ad_status :: string

record health =
  hc_status :: string
  hc_database :: string
  hc_stats :: "stats option"
  hc_error :: "string option"

definition main_add_person_profile ::
  "'t externals \<Rightarrow> vector_database \<Rightarrow> string \<Rightarrow> string \<Rightarrow> PersonProfileCreate
     \<Rightarrow> (http_error + added) \<times> vector_database" where
  "main_add_person_profile ev db uuid now profile =
     (case add_person_profile ev db uuid now profile of
        (Inr profile_id, db') \<Rightarrow>
          (Inr \<lparr>ad_message = ''Profile added successfully'', ad_profile_id = profile_id,
                ad_status = ''success''\<rparr>, db')
      | (Inl e, db') \<Rightarrow>
          (Inl (HTTPException 500 (''Failed to add profile: '' @ str_exn e)), db'))"

definition post_profiles ::
  "'t externals \<Rightarrow> vector_database \<Rightarrow> string \<Rightarrow> string \<Rightarrow> PersonProfileCreate
     \<Rightarrow> (http_error + added) \<times> vector_database" where
  "post_profiles ev db uuid now profile =
     (if valid_PersonProfileCreate profile then main_add_person_profile ev db uuid now profile
      else (Inl RequestValidationError, db))"

definition main_get_person_profile ::
  "'t externals \<Rightarrow> vector_database \<Rightarrow> string \<Rightarrow> http_error + 't PersonProfile" where
  "main_get_person_profile ev db profile_id =
     (case get_person_profile ev db profile_id of
        Inr None \<Rightarrow>
          Inl (HTTPException 404 (''Profile with ID '' @ profile_id @ '' not found''))
      | Inr (Some profile) \<Rightarrow> Inr profile
      | Inl e \<Rightarrow> Inl (HTTPException 500 (''Failed to retrieve profile: '' @ str_exn e)))"

definition main_search_similar_profiles ::
  "'t externals \<Rightarrow> vector_database \<Rightarrow> SimilaritySearchRequest
     \<Rightarrow> http_error + 't SimilaritySearchResponse" where
  "main_search_similar_profiles ev db request =
     (if sr_limit request > 50 then Inl (HTTPException 400 ''Limit cannot exceed 50'')
      else case search_similar_profiles ev db (sr_query_description request)
                  (sr_limit request) (sr_exclude_id request) of
             Inr similar_profiles \<Rightarrow>
               Inr \<lparr>sp_query = sr_query_description request, sp_results = similar_profiles,
                     sp_total_results = int (length similar_profiles)\<rparr>
           | Inl e \<Rightarrow> Inl (HTTPException 500 (''Failed to search profiles: '' @ str_exn e)))"

definition post_profiles_search ::
  "'t externals \<Rightarrow> vector_database \<Rightarrow> SimilaritySearchRequest
     \<Rightarrow> http_error + 't SimilaritySearchResponse" where
  "post_profiles_search ev db request =
     (if valid_SimilaritySearchRequest request then main_search_similar_profiles ev db request
      else Inl RequestValidationError)"

definition main_get_all_profiles ::
  "'t externals \<Rightarrow> vector_database \<Rightarrow> int \<Rightarrow> http_error + 't PersonProfile list" where
  "main_get_all_profiles ev db limit =
     (if limit > 1000 then Inl (HTTPException 400 ''Limit cannot exceed 1000'')
      else case get_all_profiles ev db limit of
             Inr profiles \<Rightarrow> Inr profiles
           | Inl e \<Rightarrow> Inl (HTTPException 500 (''Failed to retrieve profiles: '' @ str_exn e)))"

definition main_delete_person_profile ::
  "vector_database \<Rightarrow> string \<Rightarrow> (http_error + added) \<times> vector_database" where
  "main_delete_person_profile db profile_id =
     (case delete_person_profile db profile_id of
        (Inr success, db') \<Rightarrow>
          (if \<not> success
           then (Inl (HTTPException 404 (''Profile with ID '' @ profile_id @ '' not found'')), db')
           else (Inr \<lparr>ad_message = ''Profile deleted successfully'', ad_profile_id = profile_id,
                      ad_status = ''success''\<rparr>, db'))
      | (Inl e, db') \<Rightarrow>
          (Inl (HTTPException 500 (''Failed to delete profile: '' @ str_exn e)), db'))"

definition get_stats :: "vector_database \<Rightarrow> http_error + stats" where
  "get_stats db =
     (case get_collection_stats db of
        Inr stats \<Rightarrow> Inr stats
      | Inl e \<Rightarrow> Inl (HTTPException 500 (''Failed to get stats: '' @ str_exn e)))"

definition health_check :: "vector_database \<Rightarrow> http_error + health" where
  "health_check db =
     (case get_collection_stats db of
        Inr stats \<Rightarrow>
          Inr \<lparr>hc_status = ''healthy'', hc_database = ''connected'', hc_stats = Some stats,
                hc_error = None\<rparr>
      | Inl e \<Rightarrow>
          Inr \<lparr>hc_status = ''unhealthy'', hc_database = ''disconnected'', hc_stats = None,
                hc_error = Some (str_exn e)\<rparr>)"

section \<open>Concrete collaborators and stores\<close>

text \<open>
  A small instance of the collaborators, used where a property is evaluated on concrete
  data: the embedding of a text is its length, a time stamp is any non-empty string and its
  value is its length, the distance of two vectors is a hundredth of the distance of their
  sums, and the filter keeps every entry.  \<open>demo_db\<close> holds three profiles; \<open>down_db\<close>
  is the same object with a failing store.  \<open>demo_profile\<close> is a valid input without a
  location, and \<open>full_profile\<close> is the same input with one.
\<close>

definition demo_externals :: "nat externals" where
  "demo_externals =
     \<lparr>encode = (\<lambda>s. Inr [real (length s)]),
      fromisoformat = (\<lambda>s. if s = [] then Inl (ValueError ''Invalid isoformat string'')
                            else Inr (length s)),
      metric = (\<lambda>q v. \<bar>sum_list q - sum_list v\<bar> / 100),
      where_ne = (\<lambda>x m. True)\<rparr>"

definition demo_entry :: "string \<Rightarrow> real \<Rightarrow> string \<Rightarrow> entry" where
  "demo_entry i x n =
     \<lparr>e_id = i, e_embedding = [x], e_document = ''likes long walks'',
      e_metadata = \<lparr>md_name = n, md_age = Some 30, md_location = Some ''Denver'',
                    md_created_at = ''2024-01-01T00:00:00''\<rparr>\<rparr>"

definition demo_db :: vector_database where
  "demo_db =
     \<lparr>persist_directory = ''./chroma_db'', collection_name = ''person_profiles'',
      collection = \<lparr>rows = [demo_entry ''a'' 20 ''Alex'', demo_entry ''b'' 12 ''Sarah'',
                             demo_entry ''c'' 15 ''Jordan''],
                    fault = None\<rparr>\<rparr>"

definition down_db :: vector_database where
  "down_db = demo_db\<lparr>collection := (collection demo_db)\<lparr>fault := Some (StoreError ''store down'')\<rparr>\<rparr>"

definition demo_profile :: PersonProfileCreate where
  "demo_profile =
     \<lparr>pc_name = ''Riley'', pc_description = ''coding and board games'', pc_age = Some 27,
      pc_location = None\<rparr>"

definition full_profile :: PersonProfileCreate where
  "full_profile = demo_profile\<lparr>pc_location := Some ''Seattle''\<rparr>"

definition demo_request :: SimilaritySearchRequest where
  "demo_request =
     \<lparr>sr_query_description = ''hiking and mountains'', sr_limit = 2, sr_exclude_id = None\<rparr>"

definition over_limit_request :: SimilaritySearchRequest where
  "over_limit_request =
     \<lparr>sr_query_description = ''hiking and mountains'', sr_limit = 51, sr_exclude_id = None\<rparr>"

section \<open>Properties of the similarity utility\<close>

lemma underflow_square: "0 \<le> underflow (x * x) \<and> underflow (x * x) \<le> x * x"
  by (simp add: underflow_def)

lemma sum_squares_nonneg: "0 \<le> (\<Sum>x\<leftarrow>v. underflow (x * x))"
  by (induction v) (auto simp: underflow_square)

lemma sum_squares_le: "(\<Sum>x\<leftarrow>v. underflow (x * x)) \<le> (\<Sum>x\<leftarrow>v. x * x)"
  by (rule sum_list_mono) (simp add: underflow_square)


lemma dot_self: "(\<Sum>(x, y)\<leftarrow>zip v v. x * y) = (\<Sum>x\<leftarrow>v. x * x :: real)"
  by (induction v) auto

lemma norm_times_norm:
  "np_linalg_norm v * np_linalg_norm v = (\<Sum>x\<leftarrow>v. underflow (x * x))"
  by (simp add: np_linalg_norm_def sum_squares_nonneg)

lemma tiny_square: "underflow (1 / 10 ^ 200 * (1 / 10 ^ 200)) = 0"
  by (simp add: underflow_def)

lemma tiny_norm: "np_linalg_norm [1 / 10 ^ 200, 1 / 10 ^ 200] = 0"
proof -
  have "(\<Sum>x\<leftarrow>[1 / 10 ^ 200, 1 / 10 ^ 200 :: real]. underflow (x * x)) = 0"
    by (simp only: list.map sum_list.Cons sum_list.Nil tiny_square add_0_left)
  then show ?thesis
    by (simp only: np_linalg_norm_def real_sqrt_zero)
qed



text \<open>
  Claim C5 as stated fails.  The vector \<open>[1e-200, 1e-200]\<close> is not the zero vector, but
  the squares of its components underflow, its norm is \<open>0.0\<close>, and the guard of
  \<open>compute_similarity\<close> for a zero norm returns \<open>0.0\<close>, not \<open>1.0\<close>.
\<close>

theorem self_similarity_counterexample:
  "(1 / 10 ^ 200 :: real) \<noteq> 0
   \<and> compute_similarity [1 / 10 ^ 200, 1 / 10 ^ 200] [1 / 10 ^ 200, 1 / 10 ^ 200] = 0"
  unfolding compute_similarity_def tiny_norm by (simp add: np_dot_def)

text \<open>
  Claim C5, amended.  For every vector whose norm, as the program computes it, is not
  \<open>0.0\<close> (the square of at least one component does not underflow), comparing the vector
  with itself gives \<open>1\<close>: the dot product is at least the square of the norm, so the
  quotient is at least 1 and the clamp returns 1.  (Rounding is not modelled; in doubles the
  quotient is 1 up to rounding, which is the claim's floating tolerance.)
\<close>

theorem compute_similarity_self:
  assumes "np_linalg_norm v \<noteq> 0"
  shows "compute_similarity v v = 1"
proof -
  have "0 \<le> np_linalg_norm v * np_linalg_norm v" by simp
  with assms have pos: "0 < np_linalg_norm v * np_linalg_norm v"
    by (simp add: less_le)
  have "np_linalg_norm v * np_linalg_norm v \<le> (\<Sum>(x, y)\<leftarrow>zip v v. x * y)"
    by (simp only: dot_self norm_times_norm sum_squares_le)
  with pos have "1 \<le> (\<Sum>(x, y)\<leftarrow>zip v v. x * y) / (np_linalg_norm v * np_linalg_norm v)"
    by (simp only: le_divide_eq_1_pos)
  then have one: "max 0 (min 1 ((\<Sum>(x, y)\<leftarrow>zip v v. x * y)
                     / (np_linalg_norm v * np_linalg_norm v))) = (1 :: real)"
    by (simp only: min_absorb1 max_absorb2 zero_le_one)
  have "compute_similarity v v =
          max 0 (min 1 ((\<Sum>(x, y)\<leftarrow>zip v v. x * y) / (np_linalg_norm v * np_linalg_norm v)))"
    using assms by (simp add: compute_similarity_def np_dot_def Let_def)
  with one show ?thesis by (simp only:)
qed

theorem compute_similarity_self_witness:
  "np_linalg_norm [3, 4] \<noteq> 0 \<and> compute_similarity [3, 4] [3, 4] = 1"
proof -
  have h: "np_linalg_norm [3, 4] \<noteq> 0"
    by (simp add: np_linalg_norm_def underflow_def)
  from compute_similarity_self [OF h] h show ?thesis by simp
qed

section \<open>Adding and reading back a profile\<close>

lemma add_person_profile_returns:
  "fst (add_person_profile ev db uuid now p) = Inr rid \<longleftrightarrow>
     rid = uuid \<and> fault (collection db) = None
     \<and> pc_age p \<noteq> None \<and> pc_location p \<noteq> None
     \<and> (\<exists>v. generate_embedding ev (pc_description p) = Inr v)"
  by (auto simp: add_person_profile_def collection_add_def validate_metadata_def Let_def
      split: sum.splits option.splits)

lemma strip_spaces: "strip ''          '' = []"
  by (simp add: strip_def isspace_def)

lemma demo_embedding:
  "generate_embedding demo_externals (pc_description demo_profile) = Inr [22]"
  by (simp add: generate_embedding_def demo_externals_def demo_profile_def strip_def
      isspace_def Let_def)

lemma demo_profile_valid: "valid_PersonProfileCreate demo_profile"
  by (simp add: valid_PersonProfileCreate_def demo_profile_def valid_name_def
      valid_description_def valid_age_def valid_location_def)

text \<open>
  What does hold of adding and reading back: when \<open>add_person_profile\<close> returns an id
  for a valid input (so the input has an age and a location), the fresh uuid is not yet an
  id of the collection and the time stamp parses, \<open>get_person_profile\<close> returns the input's
  fields with \<open>created_at\<close> set.
\<close>

lemma add_then_get_with_both_fields:
  assumes valid: "valid_PersonProfileCreate p"
    and added: "fst (add_person_profile ev db uuid now p) = Inr rid"
    and fresh: "uuid \<notin> e_id ` set (rows (collection db))"
    and stamp: "fromisoformat ev now = Inr t"
  shows "get_person_profile ev (snd (add_person_profile ev db uuid now p)) rid =
           Inr (Some \<lparr>pp_id = Some rid, pp_name = pc_name p, pp_description = pc_description p,
                       pp_age = pc_age p, pp_location = pc_location p,
                       pp_created_at = Some t\<rparr>)"
proof -
  from added obtain v where rid: "rid = uuid" and nofault: "fault (collection db) = None"
    and age: "pc_age p \<noteq> None" and loc: "pc_location p \<noteq> None"
    and emb: "generate_embedding ev (pc_description p) = Inr v"
    by (auto simp: add_person_profile_returns)
  let ?m = "\<lparr>md_name = pc_name p, md_age = pc_age p, md_location = pc_location p,
             md_created_at = now\<rparr>"
  let ?e = "\<lparr>e_id = uuid, e_embedding = v, e_document = pc_description p, e_metadata = ?m\<rparr>"
  have db': "snd (add_person_profile ev db uuid now p) =
               db\<lparr>collection := (collection db)\<lparr>rows := rows (collection db) @ [?e]\<rparr>\<rparr>"
    using nofault emb age loc fresh
    by (simp add: add_person_profile_def collection_add_def validate_metadata_def Let_def)
  from fresh have none: "filter (\<lambda>e. e_id e = uuid) (rows (collection db)) = []"
    by (auto simp: filter_empty_conv)
  have got: "collection_get (collection (snd (add_person_profile ev db uuid now p))) uuid
               = Inr [?e]"
    using nofault none by (simp add: db' collection_get_def)
  have init: "PersonProfile_init (Some uuid) (pc_name p) (pc_description p) (pc_age p)
                (pc_location p) (Some t) =
              Inr \<lparr>pp_id = Some uuid, pp_name = pc_name p, pp_description = pc_description p,
                   pp_age = pc_age p, pp_location = pc_location p, pp_created_at = Some t\<rparr>"
    using valid by (simp add: PersonProfile_init_def valid_PersonProfileCreate_def)
  show ?thesis
    unfolding rid get_person_profile_def get_person_profile_body_def got
    using stamp init by (simp add: Let_def)
qed

lemma add_then_get_full_profile:
  "get_person_profile demo_externals
     (snd (add_person_profile demo_externals demo_db ''d'' ''2024-05-05T10:00:00'' full_profile))
     ''d'' =
   Inr (Some \<lparr>pp_id = Some ''d'', pp_name = ''Riley'',
               pp_description = ''coding and board games'', pp_age = Some 27,
               pp_location = Some ''Seattle'', pp_created_at = Some 19\<rparr>)"
proof -
  have emb: "generate_embedding demo_externals (pc_description full_profile) = Inr [22]"
    using demo_embedding by (simp add: full_profile_def)
  have valid: "valid_PersonProfileCreate full_profile"
    by (simp add: valid_PersonProfileCreate_def full_profile_def demo_profile_def
        valid_name_def valid_description_def valid_age_def valid_location_def)
  have added: "fst (add_person_profile demo_externals demo_db ''d'' ''2024-05-05T10:00:00''
                 full_profile) = Inr ''d''"
    by (simp add: add_person_profile_returns emb)
       (simp add: demo_db_def full_profile_def demo_profile_def)
  have fresh: "''d'' \<notin> e_id ` set (rows (collection demo_db))"
    by (simp add: demo_db_def demo_entry_def)
  have stamp: "fromisoformat demo_externals ''2024-05-05T10:00:00'' = Inr 19"
    by (simp add: demo_externals_def)
  from add_then_get_with_both_fields [OF valid added fresh stamp] show ?thesis
    by (simp add: full_profile_def demo_profile_def)
qed

text \<open>
  Claim C1, evaluated where it fails.  \<open>demo_profile\<close> is a valid input (name, description
  and age in range) whose optional location is absent.  \<open>add_person_profile\<close> puts
  \<open>None\<close> into the metadata for the absent field, \<open>collection.add\<close> raises on it, and the
  method re-raises: no id is returned, the store is unchanged, and \<open>POST /profiles\<close>
  answers 500.  There is nothing to read back, although the models declare age and
  location optional and \<open>get_person_profile\<close> reads both with \<open>metadata.get\<close>.
\<close>

theorem add_rejects_absent_optional_field:
  "valid_PersonProfileCreate demo_profile
   \<and> add_person_profile demo_externals demo_db ''d'' ''2024-05-05T10:00:00'' demo_profile =
       (Inl (ValueError ''Expected metadata value to be a str, int, float or bool, got None''),
        demo_db)
   \<and> post_profiles demo_externals demo_db ''d'' ''2024-05-05T10:00:00'' demo_profile =
       (Inl (HTTPException 500
          ''Failed to add profile: Expected metadata value to be a str, int, float or bool, got None''),
        demo_db)"
proof -
  have add: "add_person_profile demo_externals demo_db ''d'' ''2024-05-05T10:00:00''
               demo_profile =
       (Inl (ValueError ''Expected metadata value to be a str, int, float or bool, got None''),
        demo_db)"
    by (simp add: add_person_profile_def demo_embedding collection_add_def
        validate_metadata_def Let_def)
       (simp add: demo_profile_def)
  show ?thesis
    by (simp add: demo_profile_valid post_profiles_def main_add_person_profile_def add)
qed

text \<open>
  Claim C10.  When the embedding of the description fails (the text is blank after
  stripping, or the model raises), \<open>add_person_profile\<close> raises that exception and the
  \<open>VectorDatabase\<close> object, its collection included, is the one before the call; the
  handler of \<open>POST /profiles\<close> then answers 500, again with the store unchanged.
\<close>

theorem add_embedding_failure_atomic:
  assumes "generate_embedding ev (pc_description p) = Inl e"
  shows "add_person_profile ev db uuid now p = (Inl e, db)
         \<and> main_add_person_profile ev db uuid now p =
             (Inl (HTTPException 500 (''Failed to add profile: '' @ str_exn e)), db)"
  using assms by (simp add: add_person_profile_def main_add_person_profile_def Let_def)

theorem add_embedding_failure_atomic_witness:
  "add_person_profile demo_externals demo_db ''d'' ''2024-05-05T10:00:00''
     (demo_profile\<lparr>pc_description := ''          ''\<rparr>) =
   (Inl (ValueError ''Text cannot be empty''), demo_db)"
proof -
  have "generate_embedding demo_externals
          (pc_description (demo_profile\<lparr>pc_description := ''          ''\<rparr>))
          = Inl (ValueError ''Text cannot be empty'')"
    by (simp add: generate_embedding_def strip_spaces)
  from add_embedding_failure_atomic [OF this] show ?thesis by simp
qed

section \<open>Searching\<close>

lemma collect_similar_skip:
  "truthy exclude_id \<and> Some profile_id = exclude_id \<Longrightarrow>
   collect_similar ev exclude_id limit ((distance, document, metadata, profile_id) # rest) acc =
     collect_similar ev exclude_id limit rest acc"
  by simp

lemma collect_similar_keep:
  "\<not> (truthy exclude_id \<and> Some profile_id = exclude_id) \<Longrightarrow>
   fromisoformat ev (md_created_at metadata) = Inr t \<Longrightarrow>
   collect_similar ev exclude_id limit ((distance, document, metadata, profile_id) # rest) acc =
     (if limit \<le> int (length acc) + 1
      then Inr (acc @ [\<lparr>pr_id = profile_id, pr_name = md_name metadata,
                           pr_description = document, pr_age = md_age metadata,
                           pr_location = md_location metadata, pr_created_at = t,
                           pr_similarity_score = 1 - distance\<rparr>])
      else collect_similar ev exclude_id limit rest
             (acc @ [\<lparr>pr_id = profile_id, pr_name = md_name metadata,
                           pr_description = document, pr_age = md_age metadata,
                           pr_location = md_location metadata, pr_created_at = t,
                           pr_similarity_score = 1 - distance\<rparr>]))"
  by (auto simp: Let_def)

lemma collect_similar_fields:
  assumes "\<forall>h\<in>set hits. \<exists>t. fromisoformat ev (md_created_at (fst (snd (snd h)))) = Inr t"
    and "int (length acc) < limit"
  shows "\<exists>rs. collect_similar ev exclude_id limit hits acc = Inr (acc @ rs)
           \<and> map response_fields rs =
               take (nat limit - length acc) (map hit_fields (filter (kept exclude_id) hits))"
  using assms
proof (induction hits arbitrary: acc)
  case Nil
  then show ?case by simp
next
  case (Cons h hits)
  obtain distance document metadata profile_id where h: "h = (distance, document, metadata, profile_id)"
    by (cases h) auto
  from Cons.prems(1) have rest: "\<forall>h\<in>set hits. \<exists>t. fromisoformat ev (md_created_at (fst (snd (snd h)))) = Inr t"
    by simp
  show ?case
  proof (cases "truthy exclude_id \<and> Some profile_id = exclude_id")
    case True
    then have "\<not> kept exclude_id h" by (simp add: kept_def h)
    with Cons.IH [OF rest Cons.prems(2)] show ?thesis
      by (simp add: h collect_similar_skip [OF True] del: collect_similar.simps)
  next
    case False
    then have keep: "kept exclude_id h" by (simp add: kept_def h)
    from Cons.prems(1) obtain t where t: "fromisoformat ev (md_created_at metadata) = Inr t"
      by (auto simp: h)
    let ?r = "\<lparr>pr_id = profile_id, pr_name = md_name metadata,
                           pr_description = document, pr_age = md_age metadata,
                           pr_location = md_location metadata, pr_created_at = t,
                           pr_similarity_score = 1 - distance\<rparr>"
    have rf: "response_fields ?r = hit_fields h"
      by (simp add: response_fields_def hit_fields_def h)
    show ?thesis
    proof (cases "limit \<le> int (length (acc @ [?r]))")
      case True
      with Cons.prems(2) have one: "nat limit - length acc = Suc 0" by auto
      have "collect_similar ev exclude_id limit (h # hits) acc = Inr (acc @ [?r])"
        using True by (simp add: h collect_similar_keep [OF False t] del: collect_similar.simps)
      moreover have "map response_fields [?r] =
          take (nat limit - length acc) (map hit_fields (filter (kept exclude_id) (h # hits)))"
        using keep rf by (simp add: one)
      ultimately show ?thesis by blast
    next
      case more: False
      then have lt: "int (length (acc @ [?r])) < limit" by simp
      from Cons.IH [OF rest lt] obtain rs where
        rs: "collect_similar ev exclude_id limit hits (acc @ [?r]) = Inr ((acc @ [?r]) @ rs)"
        and fields: "map response_fields rs =
               take (nat limit - length (acc @ [?r])) (map hit_fields (filter (kept exclude_id) hits))"
        by blast
      have "collect_similar ev exclude_id limit (h # hits) acc = Inr (acc @ (?r # rs))"
        using more rs by (simp add: h collect_similar_keep [OF False t] del: collect_similar.simps)
      moreover from lt have "nat limit - length acc = Suc (nat limit - length (acc @ [?r]))"
        by auto
      then have "map response_fields (?r # rs) =
          take (nat limit - length acc) (map hit_fields (filter (kept exclude_id) (h # hits)))"
        using keep rf fields by simp
      ultimately show ?thesis by blast
    qed
  qed
qed


lemma collection_query_hits:
  assumes "fault c = None" and "1 \<le> n"
  shows "collection_query ev c q n w =
           Inr (map (\<lambda>e. (metric ev q (e_embedding e), e_document e, e_metadata e, e_id e))
                  (take (nat n) (sort_key (\<lambda>e. metric ev q (e_embedding e))
                                   (filter (where_matches ev w) (rows c)))))"
  using assms by (simp add: collection_query_def)

lemma hits_sorted:
  "sorted (map fst (map (\<lambda>e. (metric ev q (e_embedding e), e_document e, e_metadata e, e_id e))
                      (take n (sort_key (\<lambda>e. metric ev q (e_embedding e)) xs))))"
proof -
  have "sorted (take n (map (\<lambda>e. metric ev q (e_embedding e))
                          (sort_key (\<lambda>e. metric ev q (e_embedding e)) xs)))"
    by (rule sorted_wrt_take) (rule sorted_sort_key)
  then show ?thesis by (simp add: take_map comp_def)
qed

lemma scores_non_increasing:
  assumes "sorted (map fst (hits :: hit list))"
  shows "sorted_wrt (\<ge>) (map (\<lambda>f. snd (snd (snd (snd (snd f)))))
                              (take n (map hit_fields (filter P hits))))"
proof -
  have "sorted (map fst (filter P hits))"
    using assms by (rule sorted_filter)
  then have "sorted_wrt (\<lambda>a b. fst a \<le> fst b) (filter P hits)"
    by (simp add: sorted_wrt_map)
  then have "sorted_wrt (\<lambda>a b. 1 - fst a \<ge> 1 - fst b) (filter P hits)"
    by (rule sorted_wrt_mono_rel [rotated]) simp
  then have "sorted_wrt (\<ge>) (map (\<lambda>h. 1 - fst h) (filter P hits))"
    by (simp add: sorted_wrt_map)
  then have "sorted_wrt (\<ge>) (take n (map (\<lambda>h. 1 - fst h) (filter P hits)))"
    by (rule sorted_wrt_take)
  moreover have "(\<lambda>h. snd (snd (snd (snd (snd (hit_fields h)))))) = (\<lambda>h. 1 - fst h)"
    by (auto simp: hit_fields_def fun_eq_iff)
  ultimately show ?thesis
    by (simp add: take_map comp_def)
qed

lemma collect_similar_ids:
  assumes "collect_similar ev (Some X) limit hits acc = Inr rs" and "X \<noteq> []"
  shows "pr_id ` set rs \<subseteq> pr_id ` set acc \<union> ((\<lambda>h. snd (snd (snd h))) ` set hits - {X})"
  using assms
proof (induction hits arbitrary: acc)
  case Nil
  then show ?case by auto
next
  case (Cons h hits)
  obtain distance document metadata profile_id where h: "h = (distance, document, metadata, profile_id)"
    by (cases h) auto
  show ?case
  proof (cases "truthy (Some X) \<and> Some profile_id = Some X")
    case True
    with Cons.prems have "collect_similar ev (Some X) limit hits acc = Inr rs"
      by (simp add: h)
    from Cons.IH [OF this Cons.prems(2)] show ?thesis by auto
  next
    case False
    with Cons.prems(2) have ne: "profile_id \<noteq> X" by (simp add: truthy_def)
    show ?thesis
    proof (cases "fromisoformat ev (md_created_at metadata)")
      case (Inl e)
      with Cons.prems(1) False show ?thesis by (auto simp: h)
    next
      case (Inr t)
      let ?r = "\<lparr>pr_id = profile_id, pr_name = md_name metadata,
                           pr_description = document, pr_age = md_age metadata,
                           pr_location = md_location metadata, pr_created_at = t,
                           pr_similarity_score = 1 - distance\<rparr>"
      show ?thesis
      proof (cases "limit \<le> int (length acc) + 1")
        case True
        with Cons.prems(1) have "rs = acc @ [?r]"
          by (simp add: h collect_similar_keep [OF False Inr] del: collect_similar.simps)
        with ne show ?thesis by (auto simp: h)
      next
        case more: False
        with Cons.prems(1) have "collect_similar ev (Some X) limit hits (acc @ [?r]) = Inr rs"
          by (simp add: h collect_similar_keep [OF False Inr] del: collect_similar.simps)
        from Cons.IH [OF this Cons.prems(2)] ne show ?thesis by (auto simp: h)
      qed
    qed
  qed
qed

lemma collect_similar_length:
  assumes "collect_similar ev exclude_id limit hits acc = Inr rs" and "int (length acc) < limit"
  shows "int (length rs) \<le> limit"
  using assms
proof (induction hits arbitrary: acc)
  case Nil
  then show ?case by auto
next
  case (Cons h hits)
  obtain distance document metadata profile_id where h: "h = (distance, document, metadata, profile_id)"
    by (cases h) auto
  show ?case
  proof (cases "truthy exclude_id \<and> Some profile_id = exclude_id")
    case True
    with Cons.prems have "collect_similar ev exclude_id limit hits acc = Inr rs"
      by (simp add: h)
    from Cons.IH [OF this Cons.prems(2)] show ?thesis .
  next
    case False
    show ?thesis
    proof (cases "fromisoformat ev (md_created_at metadata)")
      case (Inl e)
      with Cons.prems(1) False show ?thesis by (auto simp: h)
    next
      case (Inr t)
      let ?r = "\<lparr>pr_id = profile_id, pr_name = md_name metadata,
                           pr_description = document, pr_age = md_age metadata,
                           pr_location = md_location metadata, pr_created_at = t,
                           pr_similarity_score = 1 - distance\<rparr>"
      show ?thesis
      proof (cases "limit \<le> int (length acc) + 1")
        case True
        with Cons.prems(1) have "rs = acc @ [?r]"
          by (simp add: h collect_similar_keep [OF False Inr] del: collect_similar.simps)
        with Cons.prems(2) show ?thesis by simp
      next
        case more: False
        with Cons.prems(1) have "collect_similar ev exclude_id limit hits (acc @ [?r]) = Inr rs"
          by (simp add: h collect_similar_keep [OF False Inr] del: collect_similar.simps)
        moreover from more have "int (length (acc @ [?r])) < limit" by simp
        ultimately show ?thesis by (rule Cons.IH)
      qed
    qed
  qed
qed

lemma demo_query_embedding:
  "generate_embedding demo_externals ''hiking and mountains'' = Inr [20]"
  by (simp add: generate_embedding_def demo_externals_def strip_def isspace_def Let_def)

lemma demo_collaborators:
  "metric demo_externals q v = \<bar>sum_list q - sum_list v\<bar> / 100"
  "fromisoformat demo_externals s =
     (if s = [] then Inl (ValueError ''Invalid isoformat string'') else Inr (length s))"
  "where_ne demo_externals x m = True"
  by (simp_all add: demo_externals_def)

lemma demo_search_two:
  "search_similar_profiles demo_externals demo_db ''hiking and mountains'' 2 None =
     Inr [\<lparr>pr_id = ''a'', pr_name = ''Alex'', pr_description = ''likes long walks'',
           pr_age = Some 30, pr_location = Some ''Denver'', pr_created_at = 19, pr_similarity_score = 1\<rparr>,
          \<lparr>pr_id = ''c'', pr_name = ''Jordan'', pr_description = ''likes long walks'',
           pr_age = Some 30, pr_location = Some ''Denver'', pr_created_at = 19,
           pr_similarity_score = 19 / 20\<rparr>]"
  by (simp add: search_similar_profiles_def demo_query_embedding collection_query_def
      n_results_of_def where_clause_of_def truthy_def where_matches_def demo_db_def
      demo_entry_def demo_collaborators Let_def)

lemma demo_search_excluding:
  "search_similar_profiles demo_externals demo_db ''hiking and mountains'' 2 (Some ''a'') =
     Inr [\<lparr>pr_id = ''c'', pr_name = ''Jordan'', pr_description = ''likes long walks'',
           pr_age = Some 30, pr_location = Some ''Denver'', pr_created_at = 19,
           pr_similarity_score = 19 / 20\<rparr>,
          \<lparr>pr_id = ''b'', pr_name = ''Sarah'', pr_description = ''likes long walks'',
           pr_age = Some 30, pr_location = Some ''Denver'', pr_created_at = 19,
           pr_similarity_score = 23 / 25\<rparr>]"
  by (simp add: search_similar_profiles_def demo_query_embedding collection_query_def
      n_results_of_def where_clause_of_def truthy_def where_matches_def demo_db_def
      demo_entry_def demo_collaborators Let_def)

text \<open>
  Claim C2.  Let the embedding of the query succeed, the store answer, every stored time
  stamp parse, and \<open>limit\<close> be at least 1 (as the request schema has it).  Then
  \<open>search_similar_profiles\<close> returns a list \<open>rs\<close>; the store's answer \<open>hits\<close> is in
  ascending order of distance; \<open>rs\<close> is, line by line and in the store's order, the first
  \<open>limit\<close> lines of \<open>hits\<close> that are not skipped, each with the score
  \<open>1 - distance\<close> (nothing is sorted again); the scores of \<open>rs\<close> are non-increasing; and
  when no id is excluded and the store holds at least \<open>limit\<close> profiles, \<open>rs\<close> has exactly
  \<open>limit\<close> elements.
\<close>

theorem search_nearest_first:
  assumes emb: "generate_embedding ev q = Inr v"
    and nofault: "fault (collection db) = None"
    and stamps: "\<forall>e\<in>set (rows (collection db)).
                   \<exists>t. fromisoformat ev (md_created_at (e_metadata e)) = Inr t"
    and lim: "1 \<le> limit"
  shows "\<exists>rs hits.
           search_similar_profiles ev db q limit exclude_id = Inr rs
         \<and> collection_query ev (collection db) v (n_results_of limit exclude_id)
               (where_clause_of exclude_id) = Inr hits
         \<and> sorted (map fst hits)
         \<and> map response_fields rs =
               take (nat limit) (map hit_fields (filter (kept exclude_id) hits))
         \<and> sorted_wrt (\<ge>) (map pr_similarity_score rs)
         \<and> (\<not> truthy exclude_id \<and> limit \<le> int (length (rows (collection db))) \<longrightarrow>
               length rs = nat limit)"
proof -
  let ?n = "n_results_of limit exclude_id"
  let ?w = "where_clause_of exclude_id"
  let ?d = "\<lambda>e. metric ev v (e_embedding e)"
  let ?near = "take (nat ?n) (sort_key ?d (filter (where_matches ev ?w) (rows (collection db))))"
  let ?hits = "map (\<lambda>e. (?d e, e_document e, e_metadata e, e_id e)) ?near"
  from lim have n: "1 \<le> ?n" by (simp add: n_results_of_def)
  have query: "collection_query ev (collection db) v ?n ?w = Inr ?hits"
    using nofault n by (rule collection_query_hits)
  have srt: "sorted (map fst ?hits)" by (rule hits_sorted)
  have "set ?near \<subseteq> set (rows (collection db))"
    using set_take_subset [of "nat ?n" "sort_key ?d (filter (where_matches ev ?w) (rows (collection db)))"]
    by auto
  with stamps have parse: "\<forall>h\<in>set ?hits. \<exists>t. fromisoformat ev (md_created_at (fst (snd (snd h)))) = Inr t"
    by auto
  from lim have "int (length ([] :: 'a PersonProfileResponse list)) < limit" by simp
  from collect_similar_fields [OF parse this, of exclude_id] obtain rs where
    rs: "collect_similar ev exclude_id limit ?hits [] = Inr rs"
    and fields: "map response_fields rs =
                   take (nat limit) (map hit_fields (filter (kept exclude_id) ?hits))"
    by auto
  have search: "search_similar_profiles ev db q limit exclude_id = Inr rs"
    using emb query rs by (simp add: search_similar_profiles_def Let_def)
  have "map pr_similarity_score rs = map (\<lambda>f. snd (snd (snd (snd (snd f))))) (map response_fields rs)"
    by (simp add: response_fields_def comp_def)
  with fields scores_non_increasing [OF srt, of "nat limit" "kept exclude_id"]
  have desc: "sorted_wrt (\<ge>) (map pr_similarity_score rs)" by simp
  have count: "length rs = nat limit"
    if none: "\<not> truthy exclude_id" and enough: "limit \<le> int (length (rows (collection db)))"
  proof -
    from none have "?w = None" by (auto simp: where_clause_of_def split: option.splits)
    then have "filter (where_matches ev ?w) (rows (collection db)) = rows (collection db)"
      by (simp add: where_matches_def)
    moreover from none have "?n = limit" by (simp add: n_results_of_def)
    ultimately have len: "length ?hits = nat limit" using enough by simp
    from none have "filter (kept exclude_id) ?hits = ?hits"
      by (simp add: kept_def split_def)
    with fields have "length (map response_fields rs) = min (length ?hits) (nat limit)"
      by (simp only: length_take length_map)
    with len show ?thesis by simp
  qed
  from search query srt fields desc count show ?thesis by blast
qed

theorem search_nearest_first_witness:
  "\<exists>rs. search_similar_profiles demo_externals demo_db ''hiking and mountains'' 2 None = Inr rs
        \<and> length rs = 2 \<and> sorted_wrt (\<ge>) (map pr_similarity_score rs)"
proof -
  have nofault: "fault (collection demo_db) = None"
    by (simp add: demo_db_def)
  have stamps: "\<forall>e\<in>set (rows (collection demo_db)).
                  \<exists>t. fromisoformat demo_externals (md_created_at (e_metadata e)) = Inr t"
    by (simp add: demo_db_def demo_entry_def demo_collaborators)
  have lim: "1 \<le> (2 :: int)" by simp
  have enough: "\<not> truthy None \<and> 2 \<le> int (length (rows (collection demo_db)))"
    by (simp add: truthy_def demo_db_def)
  from search_nearest_first [OF demo_query_embedding nofault stamps lim, of None] enough
  show ?thesis by auto
qed

text \<open>
  Claim C3.  Let \<open>search_similar_profiles\<close> return \<open>rs\<close> for a query that excludes the
  non-empty id \<open>X\<close>.  Then \<open>X\<close> is not the id of any element of \<open>rs\<close> (whether or not
  \<open>X\<close> is among the nearest \<open>limit + 1\<close>); \<open>rs\<close> has at most \<open>limit\<close> elements when
  \<open>limit\<close> is at least 1; and \<open>rs\<close> is what the loop makes of the store's answer to a
  query for \<open>limit + 1\<close> candidates, every id of \<open>rs\<close> being the id of a candidate other
  than \<open>X\<close>.
\<close>

theorem search_excludes:
  assumes found: "search_similar_profiles ev db q limit (Some X) = Inr rs"
    and named: "X \<noteq> []"
  shows "X \<notin> pr_id ` set rs
         \<and> (1 \<le> limit \<longrightarrow> int (length rs) \<le> limit)
         \<and> (\<exists>v hits. generate_embedding ev q = Inr v
               \<and> collection_query ev (collection db) v (limit + 1) (Some (IdNe X)) = Inr hits
               \<and> int (length hits) \<le> limit + 1
               \<and> collect_similar ev (Some X) limit hits [] = Inr rs
               \<and> pr_id ` set rs \<subseteq> (\<lambda>h. snd (snd (snd h))) ` set hits - {X})"
proof -
  from named have tr: "truthy (Some X)" by (simp add: truthy_def)
  from found obtain v where emb: "generate_embedding ev q = Inr v"
    by (auto simp: search_similar_profiles_def split: sum.splits)
  from found emb tr obtain hits where
    query: "collection_query ev (collection db) v (limit + 1) (Some (IdNe X)) = Inr hits"
    and loop: "collect_similar ev (Some X) limit hits [] = Inr rs"
    by (auto simp: search_similar_profiles_def n_results_of_def where_clause_of_def Let_def
        split: sum.splits)
  from query have len: "int (length hits) \<le> limit + 1"
    by (auto simp: collection_query_def split: option.splits if_splits)
  from collect_similar_ids [OF loop named]
  have ids: "pr_id ` set rs \<subseteq> (\<lambda>h. snd (snd (snd h))) ` set hits - {X}" by simp
  then have excl: "X \<notin> pr_id ` set rs" by auto
  have bound: "int (length rs) \<le> limit" if "1 \<le> limit"
    using collect_similar_length [OF loop] that by simp
  from excl bound emb query len loop ids show ?thesis by blast
qed


theorem search_excludes_witness:
  "\<exists>rs. search_similar_profiles demo_externals demo_db ''hiking and mountains'' 2 (Some ''a'')
          = Inr rs
        \<and> ''a'' \<notin> pr_id ` set rs \<and> int (length rs) \<le> 2"
proof -
  have named: "''a'' \<noteq> []" by simp
  from search_excludes [OF demo_search_excluding named] demo_search_excluding
  show ?thesis by simp
qed

section \<open>Failures of the store\<close>

lemma get_person_profile_never_raises: "\<exists>r. get_person_profile ev db i = Inr r"
  by (simp add: get_person_profile_def split: sum.splits)

lemma delete_person_profile_never_raises: "\<exists>b. fst (delete_person_profile db i) = Inr b"
  by (auto simp: delete_person_profile_def split: sum.splits)

lemma get_collection_stats_never_raises: "\<exists>s. get_collection_stats db = Inr s"
  by (simp add: get_collection_stats_def split: sum.splits)

lemma store_failure_swallowed:
  assumes "fault (collection db) = Some e"
  shows "get_person_profile ev db i = Inr None"
    and "delete_person_profile db i = (Inr False, db)"
    and "get_collection_stats db = Inr (StatsError (str_exn e))"
  using assms
  by (simp_all add: get_person_profile_def get_person_profile_body_def collection_get_def
      delete_person_profile_def collection_delete_def get_collection_stats_def
      collection_count_def)

lemma store_failure_raised:
  assumes "fault (collection db) = Some e"
  shows "generate_embedding ev (pc_description p) = Inr v \<Longrightarrow>
         pc_age p \<noteq> None \<Longrightarrow> pc_location p \<noteq> None \<Longrightarrow>
           main_add_person_profile ev db uuid now p =
             (Inl (HTTPException 500 (''Failed to add profile: '' @ str_exn e)), db)"
    and "generate_embedding ev q = Inr v \<Longrightarrow> sr_limit r \<le> 50 \<Longrightarrow> sr_query_description r = q \<Longrightarrow>
           main_search_similar_profiles ev db r =
             Inl (HTTPException 500 (''Failed to search profiles: '' @ str_exn e))"
    and "limit \<le> 1000 \<Longrightarrow>
           main_get_all_profiles ev db limit =
             Inl (HTTPException 500 (''Failed to retrieve profiles: '' @ str_exn e))"
  using assms
  by (auto simp: main_add_person_profile_def add_person_profile_def collection_add_def
      validate_metadata_def main_search_similar_profiles_def search_similar_profiles_def collection_query_def
      main_get_all_profiles_def get_all_profiles_def collection_get_limit_def Let_def)

lemma down_db_fault: "fault (collection down_db) = Some (StoreError ''store down'')"
  by (simp add: down_db_def)

lemma health_check_never_fails: "\<exists>h. health_check db = Inr h \<and> hc_status h = ''healthy''"
  by (simp add: health_check_def get_collection_stats_def split: sum.splits)

text \<open>
  Claim C6, evaluated where it fails.  The store of \<open>down_db\<close> raises on every call, and
  the profile \<open>a\<close> is one of its entries.  \<open>GET /profiles/a\<close> and \<open>DELETE /profiles/a\<close>
  answer 404 "not found", and \<open>GET /stats\<close> answers normally with the body
  \<open>{"error": ...}\<close>: none of the three answers 500, because the methods of
  \<open>VectorDatabase\<close> they call return \<open>None\<close>, \<open>False\<close> and the error dictionary from
  their handlers, so the \<open>except Exception\<close> branches of the three routes are never taken.
  (\<open>store_failure_raised\<close> is the behaviour of the other three operations, which re-raise
  and answer 500.)
\<close>

theorem store_failure_not_surfaced:
  "main_get_person_profile demo_externals down_db ''a'' =
     Inl (HTTPException 404 ''Profile with ID a not found'')
   \<and> main_delete_person_profile down_db ''a'' =
       (Inl (HTTPException 404 ''Profile with ID a not found''), down_db)
   \<and> get_stats down_db = Inr (StatsError ''store down'')"
  by (simp add: main_get_person_profile_def main_delete_person_profile_def get_stats_def
      store_failure_swallowed [OF down_db_fault])

text \<open>
  Claim C7, evaluated where it fails.  No entry of \<open>demo_db\<close> has the id \<open>zzz\<close>, and
  the store answers.  \<open>delete_person_profile\<close> returns \<open>True\<close> and leaves the store as it
  was, and \<open>DELETE /profiles/zzz\<close> answers "Profile deleted successfully", not 404: the
  method never looks whether the id exists, and returns \<open>False\<close> only when the store
  raises.
\<close>

theorem delete_nonexistent_reports_success:
  "delete_person_profile demo_db ''zzz'' = (Inr True, demo_db)
   \<and> main_delete_person_profile demo_db ''zzz'' =
       (Inr \<lparr>ad_message = ''Profile deleted successfully'', ad_profile_id = ''zzz'',
             ad_status = ''success''\<rparr>, demo_db)"
  by (simp add: main_delete_person_profile_def delete_person_profile_def collection_delete_def
      demo_db_def demo_entry_def)

text \<open>
  Claim C8, evaluated where it fails.  With the failing store of \<open>down_db\<close>,
  \<open>GET /health\<close> answers normally, and the status it reports is "healthy" with the error
  dictionary as its stats: \<open>get_collection_stats\<close> has returned that dictionary from its
  own handler, so the branch of \<open>health_check\<close> that reports "unhealthy" is never taken
  (\<open>health_check_never_fails\<close>).
\<close>

theorem health_check_reports_healthy_on_failure:
  "health_check down_db =
     Inr \<lparr>hc_status = ''healthy'', hc_database = ''connected'',
          hc_stats = Some (StatsError ''store down''), hc_error = None\<rparr>"
  by (simp add: health_check_def store_failure_swallowed [OF down_db_fault])

section \<open>The caps on \<open>limit\<close>\<close>

lemma demo_get_all_two:
  "get_all_profiles demo_externals demo_db 2 =
     Inr [\<lparr>pp_id = Some ''a'', pp_name = ''Alex'', pp_description = ''likes long walks'',
           pp_age = Some 30, pp_location = Some ''Denver'', pp_created_at = Some 19\<rparr>,
          \<lparr>pp_id = Some ''b'', pp_name = ''Sarah'', pp_description = ''likes long walks'',
           pp_age = Some 30, pp_location = Some ''Denver'', pp_created_at = Some 19\<rparr>]"
  by (simp add: get_all_profiles_def collection_get_limit_def demo_db_def demo_entry_def
      demo_collaborators PersonProfile_init_def valid_name_def valid_description_def
      valid_age_def valid_location_def)

text \<open>
  Claim C9 as stated fails for the search: a body with \<open>limit = 51\<close> does not pass the
  schema of \<open>SimilaritySearchRequest\<close> (\<open>le=50\<close>), so the request is answered by the
  framework's validation error and the handler, with its own check and its HTTP 400, is
  never run.
\<close>

theorem search_over_limit_counterexample:
  "post_profiles_search demo_externals demo_db over_limit_request = Inl RequestValidationError
   \<and> post_profiles_search demo_externals demo_db over_limit_request
       \<noteq> Inl (HTTPException 400 ''Limit cannot exceed 50'')"
  by (simp add: post_profiles_search_def valid_SimilaritySearchRequest_def over_limit_request_def)

text \<open>
  Claim C9, amended.  A search request with \<open>limit > 50\<close> is rejected by the validation of
  the request body, before the handler runs; a search request that passes the schema
  (description of 10 to 2000 characters, \<open>limit\<close> from 1 to 50) proceeds to
  \<open>search_similar_profiles\<close>, whose result or failure (500) is the answer.  A list request
  with \<open>limit > 1000\<close> fails with HTTP 400, and one with \<open>limit\<close> at most 1000 proceeds to
  \<open>get_all_profiles\<close>.
\<close>

theorem limit_caps:
  "(sr_limit r > 50 \<longrightarrow> post_profiles_search ev db r = Inl RequestValidationError)
   \<and> (valid_SimilaritySearchRequest r \<longrightarrow>
        post_profiles_search ev db r =
          (case search_similar_profiles ev db (sr_query_description r) (sr_limit r)
                  (sr_exclude_id r) of
             Inr similar_profiles \<Rightarrow>
               Inr \<lparr>sp_query = sr_query_description r, sp_results = similar_profiles,
                     sp_total_results = int (length similar_profiles)\<rparr>
           | Inl e \<Rightarrow> Inl (HTTPException 500 (''Failed to search profiles: '' @ str_exn e))))
   \<and> (limit > 1000 \<longrightarrow>
        main_get_all_profiles ev db limit = Inl (HTTPException 400 ''Limit cannot exceed 1000''))
   \<and> (limit \<le> 1000 \<longrightarrow>
        main_get_all_profiles ev db limit =
          (case get_all_profiles ev db limit of
             Inr profiles \<Rightarrow> Inr profiles
           | Inl e \<Rightarrow> Inl (HTTPException 500 (''Failed to retrieve profiles: '' @ str_exn e))))"
  by (simp add: post_profiles_search_def valid_SimilaritySearchRequest_def
      main_search_similar_profiles_def main_get_all_profiles_def)

theorem limit_caps_witness:
  "post_profiles_search demo_externals demo_db over_limit_request = Inl RequestValidationError
   \<and> (\<exists>rs. post_profiles_search demo_externals demo_db demo_request =
              Inr \<lparr>sp_query = ''hiking and mountains'', sp_results = rs, sp_total_results = 2\<rparr>)
   \<and> main_get_all_profiles demo_externals demo_db 1001 =
       Inl (HTTPException 400 ''Limit cannot exceed 1000'')
   \<and> (\<exists>ps. main_get_all_profiles demo_externals demo_db 2 = Inr ps \<and> length ps = 2)"
proof -
  have over: "sr_limit over_limit_request > 50"
    by (simp add: over_limit_request_def)
  have ok: "valid_SimilaritySearchRequest demo_request"
    by (simp add: valid_SimilaritySearchRequest_def valid_description_def demo_request_def)
  have fields: "sr_query_description demo_request = ''hiking and mountains''"
    "sr_limit demo_request = 2" "sr_exclude_id demo_request = None"
    by (simp_all add: demo_request_def)
  from limit_caps [of over_limit_request demo_externals demo_db 1001] over
  have a: "post_profiles_search demo_externals demo_db over_limit_request
             = Inl RequestValidationError"
    and c: "main_get_all_profiles demo_externals demo_db 1001 =
              Inl (HTTPException 400 ''Limit cannot exceed 1000'')"
    by simp_all
  from limit_caps [of demo_request demo_externals demo_db 2] ok
  have b: "\<exists>rs. post_profiles_search demo_externals demo_db demo_request =
              Inr \<lparr>sp_query = ''hiking and mountains'', sp_results = rs, sp_total_results = 2\<rparr>"
    and d: "\<exists>ps. main_get_all_profiles demo_externals demo_db 2 = Inr ps \<and> length ps = 2"
    by (simp_all add: fields demo_search_two demo_get_all_two)
  from a b c d show ?thesis by blast
qed

end
